theory Spec2Isabelle
  imports Complex_Main
begin

unbundle bit_operations_syntax

section \<open>JavaScript values read from JSON files\<close>

text \<open>
  The plugin reads two JSON files, \<^verbatim>\<open>package.json\<close> and the snapshot \<^verbatim>\<open>dll.json\<close>.
  What \<^verbatim>\<open>JSON.parse\<close> returns is a JSON value. An object is the list of its own
  properties in the order \<^verbatim>\<open>Object.keys\<close> enumerates them; a JavaScript object has each
  key once, which the theorems about objects state as \<open>distinct (map fst kvs)\<close>.
  Numbers are kept as integers (no claim depends on a number); strings are ASCII text.
  The JavaScript value \<^verbatim>\<open>undefined\<close> is \<open>None\<close> of \<open>json option\<close>.
\<close>

datatype json =
    JNull
  | JBool bool
  | JNum int
  | JStr string
  | JArr "json list"
  | JObj "(string \<times> json) list"

type_synonym jsval = "json option"

text \<open>Truthiness, as \<^verbatim>\<open>cache && ...\<close> tests it.\<close>

fun truthy :: "jsval \<Rightarrow> bool" where
  "truthy None = False"
| "truthy (Some JNull) = False"
| "truthy (Some (JBool b)) = b"
| "truthy (Some (JNum n)) = (n \<noteq> 0)"
| "truthy (Some (JStr s)) = (s \<noteq> [])"
| "truthy (Some (JArr xs)) = True"
| "truthy (Some (JObj kvs)) = True"

text \<open>
  \<^verbatim>\<open>isEqual\<close> is imported from lodash. Its documented behaviour on JSON values:
  primitives are compared by value, arrays by length and then element by element, plain
  objects by the number of own keys, then every key of the first must be an own key of the
  second, and the values read under the key from both (\<^verbatim>\<open>object[key]\<close>, \<^verbatim>\<open>other[key]\<close>)
  must be equal (the order of the keys plays no part).
\<close>

function baseIsEqual :: "json \<Rightarrow> json \<Rightarrow> bool" where
  "baseIsEqual JNull b = (b = JNull)"
| "baseIsEqual (JBool x) b = (b = JBool x)"
| "baseIsEqual (JNum x) b = (b = JNum x)"
| "baseIsEqual (JStr x) b = (b = JStr x)"
| "baseIsEqual (JArr xs) b =
     (case b of
        JArr ys \<Rightarrow> length xs = length ys \<and>
                   (\<forall>i \<in> set [0..<length xs]. i < length ys \<and> baseIsEqual (xs ! i) (ys ! i))
      | _ \<Rightarrow> False)"
| "baseIsEqual (JObj kvs) b =
     (case b of
        JObj lws \<Rightarrow> length kvs = length lws \<and>
                    (\<forall>k \<in> set (map fst kvs).
                       case map_of lws k of
                         None \<Rightarrow> False
                       | Some w \<Rightarrow>
                           (case map_of kvs k of
                              None \<Rightarrow> False
                            | Some v \<Rightarrow> baseIsEqual v w))
      | _ \<Rightarrow> False)"
  by pat_completeness auto

termination baseIsEqual
proof (relation "measure (\<lambda>(a, b). size a)", goal_cases)
  case 1
  show ?case by simp
next
  case (2 xs b ys i)
  have "x \<in> set xs \<Longrightarrow> size x < Suc (size_list size xs)" for x
    by (induction xs) auto
  from this [of "xs ! i"] 2 show ?case by simp
next
  case (3 kvs b lws k w v)
  have "kv \<in> set kvs \<Longrightarrow> size (snd kv) < size (JObj kvs)" for kv
    by (induction kvs) auto
  from this [of "(k, v)"] 3 show ?case by (simp del: json.size add: map_of_SomeD)
qed

fun isEqual :: "jsval \<Rightarrow> jsval \<Rightarrow> bool" where
  "isEqual None None = True"
| "isEqual (Some a) (Some b) = baseIsEqual a b"
| "isEqual _ _ = False"

text \<open>
  \<^verbatim>\<open>Object.keys\<close>: a \<^verbatim>\<open>TypeError\<close> on \<^verbatim>\<open>undefined\<close> and \<^verbatim>\<open>null\<close>, the own keys
  of an object, the indices of an array or a string as decimal strings, nothing for a
  number or a boolean.
\<close>

fun string_of_nat :: "nat \<Rightarrow> string" where
  "string_of_nat n =
     (if n < 10 then [char_of (48 + n)]
      else string_of_nat (n div 10) @ [char_of (48 + n mod 10)])"

declare string_of_nat.simps [simp del]

section \<open>Errors and promise outcomes\<close>

text \<open>
  What the external bundler hands to its callback as \<^verbatim>\<open>err\<close>: an error object with a
  stack text and optional details.
\<close>

record bundler_error =
  err_stack :: string
  err_details :: "string option"

text \<open>
  Every value a promise of the plugin is rejected with: the \<^verbatim>\<open>Error\<close> thrown when
  \<^verbatim>\<open>package.json\<close> cannot be read, the \<^verbatim>\<open>TypeError\<close> of \<^verbatim>\<open>Object.keys\<close>, the
  bundler's \<^verbatim>\<open>err\<close>, the array \<^verbatim>\<open>info.errors\<close> of compile errors, and the error of a
  file-system call (the path it failed on).
\<close>

datatype rejection =
    CantFindPackageJson
  | TypeError
  | BundlerErr bundler_error
  | CompileErrors "string list"
  | ENOENT "string \<times> string"

datatype outcome = Resolved | Rejected rejection

fun Object_keys :: "jsval \<Rightarrow> rejection + string list" where
  "Object_keys None = Inl TypeError"
| "Object_keys (Some JNull) = Inl TypeError"
| "Object_keys (Some (JBool b)) = Inr []"
| "Object_keys (Some (JNum n)) = Inr []"
| "Object_keys (Some (JStr s)) = Inr (map string_of_nat [0..<length s])"
| "Object_keys (Some (JArr xs)) = Inr (map string_of_nat [0..<length xs])"
| "Object_keys (Some (JObj kvs)) = Inr (map fst kvs)"

text \<open>\<^verbatim>\<open>Array.prototype.indexOf\<close>: the first index of \<open>x\<close>, or \<open>-1\<close>.\<close>

fun indexOf_from :: "'a list \<Rightarrow> 'a \<Rightarrow> int \<Rightarrow> int" where
  "indexOf_from [] x i = - 1"
| "indexOf_from (y # ys) x i = (if y = x then i else indexOf_from ys x (i + 1))"

definition indexOf :: "'a list \<Rightarrow> 'a \<Rightarrow> int" where
  "indexOf xs x = indexOf_from xs x 0"

text \<open>\<^verbatim>\<open>Array.prototype.join('\\n')\<close>.\<close>

fun join_lines :: "string list \<Rightarrow> string" where
  "join_lines [] = []"
| "join_lines [x] = x"
| "join_lines (x # y # ys) = x @ [CHR 0x0A] @ join_lines (y # ys)"

section \<open>Files, console and bundler\<close>

text \<open>
  A call that either returns a value or throws (\<^verbatim>\<open>JSON.parse\<close>, a property read,
  \<^verbatim>\<open>fs.readFile\<close> whose promise is rejected).
\<close>

datatype 'a completion = Throw | Normal 'a

text \<open>
  A path is the pair of a directory and a file name, the two arguments of the
  \<^verbatim>\<open>path.resolve(directory, name)\<close> that builds it. A file's text is identified with the
  value \<^verbatim>\<open>JSON.parse\<close> returns on it, or is text that \<^verbatim>\<open>JSON.parse\<close> rejects;
  \<^verbatim>\<open>JSON.stringify\<close> of a value that came out of \<^verbatim>\<open>JSON.parse\<close> is a text that parses
  back to that value.
\<close>

type_synonym path = "string \<times> string"

datatype content = JsonText json | NotJson string

fun JSON_parse :: "content \<Rightarrow> json completion" where
  "JSON_parse (JsonText v) = Normal v"
| "JSON_parse (NotJson t) = Throw"

definition JSON_stringify :: "json \<Rightarrow> content" where
  "JSON_stringify v = JsonText v"

record file_entry =
  content :: content
  mtime :: rat

record filesys =
  files :: "path \<rightharpoonup> file_entry"
  dirs :: "string set"

definition readFile :: "path \<Rightarrow> filesys \<Rightarrow> content completion" where
  "readFile p fsys = (case files fsys p of None \<Rightarrow> Throw | Some f \<Rightarrow> Normal (content f))"

text \<open>\<^verbatim>\<open>fs.writeFile\<close> creates or replaces the file; it fails when the directory is missing.\<close>

definition writeFile :: "path \<Rightarrow> content \<Rightarrow> rat \<Rightarrow> filesys \<Rightarrow> rejection + filesys" where
  "writeFile p c t fsys =
     (if fst p \<in> dirs fsys
      then Inr (fsys\<lparr>files := (files fsys)(p \<mapsto> \<lparr>content = c, mtime = t\<rparr>)\<rparr>)
      else Inl (ENOENT p))"

text \<open>\<^verbatim>\<open>fs.utimes(path, atime, mtime)\<close> fails when the file is missing.\<close>

definition utimes :: "path \<Rightarrow> rat \<Rightarrow> rat \<Rightarrow> filesys \<Rightarrow> rejection + filesys" where
  "utimes p atime mt fsys =
     (case files fsys p of
        None \<Rightarrow> Inl (ENOENT p)
      | Some f \<Rightarrow> Inr (fsys\<lparr>files := (files fsys)(p \<mapsto> f\<lparr>mtime := mt\<rparr>)\<rparr>))"

datatype stream = Log | Warn | Err

datatype printed = Text string | ErrorObject bundler_error

typedecl module_config

record webpack_config =
  entry :: "string \<times> string list"
  output_path :: string
  output_filename :: string
  output_library :: string
  config_context :: string
  config_module :: "module_config option"
  DllPlugin_path :: path
  DllPlugin_name :: string

text \<open>
  What the bundler passes to its callback: \<^verbatim>\<open>err\<close>, or \<^verbatim>\<open>stats\<close> with the compile
  errors and warnings of \<^verbatim>\<open>stats.toJson()\<close> and the text of \<^verbatim>\<open>stats.toString(true)\<close>.
  The bundler is a parameter: it gets the configuration and the file system and leaves
  its result and the file system as it wrote it.
\<close>

record stats =
  errors :: "string list"
  warnings :: "string list"
  stats_text :: string

datatype bundler_result = Failed bundler_error | Stats stats

type_synonym bundler = "webpack_config \<Rightarrow> filesys \<Rightarrow> bundler_result \<times> filesys"

text \<open>
  The world the plugin acts on: the file system, what was printed on the console, and the
  configurations the bundler was invoked with.
\<close>

record world =
  fs :: filesys
  console :: "(stream \<times> printed) list"
  invocations :: "webpack_config list"

definition print :: "stream \<Rightarrow> printed \<Rightarrow> world \<Rightarrow> world" where
  "print s x w = w\<lparr>console := console w @ [(s, x)]\<rparr>"

section \<open>Options and paths\<close>

datatype log_option = LogBool bool | LogInfo | LogVerbose | LogNone

text \<open>\<^verbatim>\<open>webpackOptions.library\<close>: every property may be missing.\<close>

record library =
  lib_base :: "string option"
  lib_dllDirectoryName :: "string option"
  lib_dllName :: "string option"
  lib_include :: "string list option"
  lib_exclude :: "string list option"
  lib_log :: "log_option option"
  lib_module :: "module_config option"

record options =
  base :: string
  dllDirectoryName :: string
  dllName :: string
  opt_include :: "string list"
  opt_exclude :: "string list"
  opt_log :: log_option

text \<open>
  One call of the plugin: the working directory of the process (\<^verbatim>\<open>path.resolve('.')\<close>)
  and the two properties of \<^verbatim>\<open>webpackOptions\<close> that \<open>make\<close> and \<open>build\<close> read.
\<close>

record plugin_call =
  cwd :: string
  wp_library :: "library option"
  wp_module :: "module_config option"

text \<open>The data of the HTML plugin's hook: the script references \<^verbatim>\<open>data.assets.js\<close>.\<close>

record html_data =
  assets_js :: "string list"

definition DefaultOptions :: "string \<Rightarrow> options" where
  "DefaultOptions d =
     \<lparr>base = d, dllDirectoryName = ''.dll-cache'', dllName = ''vendor'',
      opt_include = [], opt_exclude = [], opt_log = LogBool True\<rparr>"

definition or_default :: "'a option \<Rightarrow> 'a \<Rightarrow> 'a" where
  "or_default v d = (case v of None \<Rightarrow> d | Some x \<Rightarrow> x)"

text \<open>\<^verbatim>\<open>Object.assign({}, DefaultOptions, library)\<close>.\<close>

definition plugin_options :: "plugin_call \<Rightarrow> options" where
  "plugin_options c =
     (let d = DefaultOptions (cwd c) in
      case wp_library c of
        None \<Rightarrow> d
      | Some l \<Rightarrow>
          \<lparr>base = or_default (lib_base l) (base d),
           dllDirectoryName = or_default (lib_dllDirectoryName l) (dllDirectoryName d),
           dllName = or_default (lib_dllName l) (dllName d),
           opt_include = or_default (lib_include l) (opt_include d),
           opt_exclude = or_default (lib_exclude l) (opt_exclude d),
           opt_log = or_default (lib_log l) (opt_log d)\<rparr>)"

text \<open>
  The paths. \<open>base\<close> is taken as an absolute, normalised path, on which
  \<^verbatim>\<open>path.resolve(base)\<close> is the identity, and \<^verbatim>\<open>path.resolve(base, dirname)\<close> is
  written for a plain directory name. The three files the plugin reads and writes have
  three different names, so their paths differ whatever the directories are.
\<close>

definition dllDirectory :: "plugin_call \<Rightarrow> string" where
  "dllDirectory c = base (plugin_options c) @ ''/'' @ dllDirectoryName (plugin_options c)"

definition manifestName :: string where
  "manifestName = ''vendor-manifest.json''"

definition manifestPath :: "plugin_call \<Rightarrow> path" where
  "manifestPath c = (dllDirectory c, manifestName)"

definition dllCacheName :: string where
  "dllCacheName = ''dll.json''"

definition dllCachePath :: "plugin_call \<Rightarrow> path" where
  "dllCachePath c = (dllDirectory c, dllCacheName)"

definition dllAssetName :: "plugin_call \<Rightarrow> string" where
  "dllAssetName c = dllName (plugin_options c) @ ''.js''"

definition pkgJsonPath :: "plugin_call \<Rightarrow> path" where
  "pkgJsonPath c = (base (plugin_options c), ''package.json'')"

text \<open>The test \<^verbatim>\<open>log !== false || log !== 'none'\<close> that guards the three messages.\<close>

definition log_test :: "log_option \<Rightarrow> bool" where
  "log_test l = (l \<noteq> LogBool False \<or> l \<noteq> LogNone)"

definition start_message :: string where
  "start_message =
     [CHR 0x0A] @ ''LibraryPlugin start to build dll bundle'' @ [CHR 0xE2, CHR 0x80, CHR 0xA6]
     @ [CHR 0x0A]"

definition success_message :: string where
  "success_message = [CHR 0x0A] @ ''LibraryPlugin build dll successfully'' @ [CHR 0x0A]"

definition changed_message :: string where
  "changed_message = [CHR 0x0A] @ ''LibraryPlugin found package.json changed'' @ [CHR 0x0A]"

section \<open>The plugin: build, make and the hooks\<close>

text \<open>
  The entry of the dll bundle:
  \<^verbatim>\<open>{ [name]: Object.keys(deps).concat(include).filter(x => !~exclude.indexOf(x)) }\<close>.
  \<^verbatim>\<open>~\<close> is the bitwise complement and \<^verbatim>\<open>!\<close> of a number holds for zero only.
\<close>

definition build_entry :: "plugin_call \<Rightarrow> jsval \<Rightarrow> rejection + string \<times> string list" where
  "build_entry c deps =
     (case Object_keys deps of
        Inl e \<Rightarrow> Inl e
      | Inr ks \<Rightarrow>
          Inr (dllName (plugin_options c),
               filter (\<lambda>x. NOT (indexOf (opt_exclude (plugin_options c)) x) = 0)
                      (ks @ opt_include (plugin_options c))))"

text \<open>\<^verbatim>\<open>library && library.module || webpackOptions.module\<close>.\<close>

definition module_setting :: "plugin_call \<Rightarrow> module_config option" where
  "module_setting c =
     (case wp_library c of
        None \<Rightarrow> wp_module c
      | Some l \<Rightarrow> (case lib_module l of None \<Rightarrow> wp_module c | Some m \<Rightarrow> Some m))"

definition build_config :: "plugin_call \<Rightarrow> string \<times> string list \<Rightarrow> webpack_config" where
  "build_config c e =
     \<lparr>entry = e,
      output_path = dllDirectory c,
      output_filename = ''[name].js'',
      output_library = ''[name]'',
      config_context = base (plugin_options c),
      config_module = module_setting c,
      DllPlugin_path = manifestPath c,
      DllPlugin_name = ''[name]''\<rparr>"

text \<open>
  A promise is settled by the first call of \<^verbatim>\<open>resolve\<close> or \<^verbatim>\<open>reject\<close>; later calls
  do nothing. \<open>settled\<close> is the state of the promise so far.
\<close>

definition settle :: "outcome option \<Rightarrow> outcome \<Rightarrow> outcome option" where
  "settle settled out = (case settled of None \<Rightarrow> Some out | Some first \<Rightarrow> Some first)"

text \<open>
  The callback \<^verbatim>\<open>(err, stats) => { ... }\<close> that \<open>build\<close> gives to the bundler, with the
  clock reading \<open>now\<close> of \<^verbatim>\<open>Date.now()\<close> in milliseconds, in four parts.

  \<open>report_fatal\<close> is the branch for \<^verbatim>\<open>err\<close>, which prints and ends with \<^verbatim>\<open>reject(err)\<close>
  and \<^verbatim>\<open>return\<close>.
\<close>

definition report_fatal :: "bundler_error \<Rightarrow> world \<Rightarrow> world" where
  "report_fatal err w =
     (let w1 = print Err (if err_stack err \<noteq> [] then Text (err_stack err)
                          else ErrorObject err) w
      in case err_details err of
           None \<Rightarrow> w1
         | Some d \<Rightarrow> if d \<noteq> [] then print Err (Text d) w1 else w1)"

text \<open>
  \<open>report_stats\<close> is what the callback prints for \<^verbatim>\<open>stats\<close>: the warnings, the errors,
  and with \<^verbatim>\<open>log === 'verbose'\<close> the text of the stats.
\<close>

definition report_stats :: "plugin_call \<Rightarrow> stats \<Rightarrow> world \<Rightarrow> world" where
  "report_stats c st w =
     (let w1 = (if warnings st \<noteq> [] then print Warn (Text (join_lines (warnings st))) w
                else w);
          w2 = (if errors st \<noteq> [] then print Err (Text (join_lines (errors st))) w1
                else w1)
      in if opt_log (plugin_options c) = LogVerbose
         then print Log (Text (stats_text st)) w2 else w2)"

text \<open>
  \<open>touch_and_save\<close> is
  \<^verbatim>\<open>Promise.all([fs.utimes(manifestPath, now, now), fs.writeFile(dllCachePath, JSON.stringify(deps))])\<close>
  with \<^verbatim>\<open>now = Date.now() / 1000 - 10\<close>: both operations are started, \<^verbatim>\<open>fs.utimes\<close>
  first, and the promise is rejected when one of them fails (with the error of
  \<^verbatim>\<open>fs.utimes\<close> when both do). The result is the rejection, if any, and the world.
\<close>

definition touch_and_save ::
  "plugin_call \<Rightarrow> nat \<Rightarrow> json \<Rightarrow> world \<Rightarrow> rejection option \<times> world" where
  "touch_and_save c now deps w =
     (let t = rat_of_nat now / 1000 - 10;
          r1 = utimes (manifestPath c) t t (fs w);
          fs1 = (case r1 of Inl e \<Rightarrow> fs w | Inr f \<Rightarrow> f);
          r2 = writeFile (dllCachePath c) (JSON_stringify deps) (rat_of_nat now / 1000) fs1;
          fs2 = (case r2 of Inl e \<Rightarrow> fs1 | Inr f \<Rightarrow> f)
      in (case r1 of
            Inl e \<Rightarrow> Some e
          | Inr f \<Rightarrow> (case r2 of Inl e \<Rightarrow> Some e | Inr g \<Rightarrow> None),
          w\<lparr>fs := fs2\<rparr>))"

text \<open>
  The callback itself. The branch for \<^verbatim>\<open>stats.hasErrors()\<close> calls
  \<^verbatim>\<open>reject(info.errors)\<close> and, having no \<^verbatim>\<open>return\<close>, goes on to the file operations;
  \<open>rejected\<close> is the state of the promise at that point.
\<close>

definition bundler_callback ::
  "plugin_call \<Rightarrow> nat \<Rightarrow> json \<Rightarrow> bundler_result \<Rightarrow> world \<Rightarrow> outcome option \<times> world" where
  "bundler_callback c now deps result w =
     (case result of
        Failed err \<Rightarrow> (settle None (Rejected (BundlerErr err)), report_fatal err w)
      | Stats st \<Rightarrow>
          (let rejected = (if errors st \<noteq> []
                           then settle None (Rejected (CompileErrors (errors st)))
                           else None);
               (failure, w1) = touch_and_save c now deps (report_stats c st w)
           in case failure of
                Some e \<Rightarrow> (settle rejected (Rejected e), w1)
              | None \<Rightarrow>
                  (settle rejected Resolved,
                   if log_test (opt_log (plugin_options c))
                   then print Log (Text success_message) w1 else w1)))"

text \<open>
  \<open>build\<close>: \<^verbatim>\<open>Object.keys(deps)\<close> throws before the promise is made, which rejects the
  promise of \<open>make\<close> that called it. Every path of the callback settles the promise.
\<close>

definition build :: "plugin_call \<Rightarrow> bundler \<Rightarrow> nat \<Rightarrow> jsval \<Rightarrow> world \<Rightarrow> outcome \<times> world" where
  "build c webpack now deps w =
     (case build_entry c deps of
        Inl e \<Rightarrow> (Rejected e, w)
      | Inr e \<Rightarrow>
          (case deps of
             None \<Rightarrow> (Rejected TypeError, w)
           | Some d \<Rightarrow>
               (let config = build_config c e;
                    (result, fs1) = webpack config (fs w);
                    w1 = w\<lparr>fs := fs1, invocations := invocations w @ [config]\<rparr>;
                    (p, w2) = bundler_callback c now d result w1
                in (case p of None \<Rightarrow> (Resolved, w2) | Some out \<Rightarrow> (out, w2)))))"

text \<open>
  \<^verbatim>\<open>JSON.parse(pkg).dependencies\<close>: reading a property of \<^verbatim>\<open>null\<close> throws, a missing
  property is \<^verbatim>\<open>undefined\<close>, and no array, string, number or boolean has the property.
\<close>

fun dependencies_of :: "json \<Rightarrow> jsval completion" where
  "dependencies_of JNull = Throw"
| "dependencies_of (JObj kvs) = Normal (map_of kvs ''dependencies'')"
| "dependencies_of v = Normal None"

text \<open>First step of \<open>make\<close>: every failure becomes \<^verbatim>\<open>Error("Can't find package.json")\<close>.\<close>

definition read_deps :: "plugin_call \<Rightarrow> world \<Rightarrow> rejection + jsval" where
  "read_deps c w =
     (case readFile (pkgJsonPath c) (fs w) of
        Throw \<Rightarrow> Inl CantFindPackageJson
      | Normal pkg \<Rightarrow>
          (case JSON_parse pkg of
             Throw \<Rightarrow> Inl CantFindPackageJson
           | Normal v \<Rightarrow>
               (case dependencies_of v of
                  Throw \<Rightarrow> Inl CantFindPackageJson
                | Normal d \<Rightarrow> Inr d)))"

text \<open>
  Second step of \<open>make\<close>: the \<^verbatim>\<open>.catch\<close> after the \<^verbatim>\<open>.then\<close> takes both a failed read and
  a throwing \<^verbatim>\<open>JSON.parse\<close>; \<^verbatim>\<open>opts.cache\<close> then stays \<^verbatim>\<open>undefined\<close>.
\<close>

definition read_cache :: "plugin_call \<Rightarrow> world \<Rightarrow> jsval \<times> world" where
  "read_cache c w =
     (let initial = (None, if log_test (opt_log (plugin_options c))
                           then print Log (Text start_message) w else w)
      in case readFile (dllCachePath c) (fs w) of
           Throw \<Rightarrow> initial
         | Normal cache \<Rightarrow>
             (case JSON_parse cache of
                Throw \<Rightarrow> initial
              | Normal v \<Rightarrow> (Some v, w)))"

text \<open>The test \<^verbatim>\<open>cache && isEqual(cache, deps)\<close> under which \<open>make\<close> returns without building.\<close>

definition cache_valid :: "jsval \<Rightarrow> jsval \<Rightarrow> bool" where
  "cache_valid cache deps = (truthy cache \<and> isEqual cache deps)"

definition make :: "plugin_call \<Rightarrow> bundler \<Rightarrow> nat \<Rightarrow> world \<Rightarrow> outcome \<times> world" where
  "make c webpack now w =
     (case read_deps c w of
        Inl e \<Rightarrow> (Rejected e, w)
      | Inr deps \<Rightarrow>
          (let (cache, w1) = read_cache c w
           in if cache_valid cache deps then (Resolved, w1)
              else build c webpack now deps w1))"

text \<open>
  The hook on \<^verbatim>\<open>html-webpack-plugin-before-html-generation\<close>:
  \<^verbatim>\<open>data.assets.js.unshift(dllAssetName)\<close>, then \<^verbatim>\<open>callback(null, data)\<close>.
\<close>

definition html_hook :: "plugin_call \<Rightarrow> html_data \<Rightarrow> html_data" where
  "html_hook c data = data\<lparr>assets_js := dllAssetName c # assets_js data\<rparr>"

text \<open>
  The hook on \<^verbatim>\<open>watch-run\<close>. \<open>pkgTimestamp\<close> is the variable of the enclosing function
  (initially \<open>Some 0\<close>), \<open>timestamp\<close> is \<^verbatim>\<open>contextTimestamps[pkgJsonPath]\<close> (\<open>None\<close> when
  \<^verbatim>\<open>undefined\<close>). The result is the argument the host's callback gets (\<open>None\<close> for
  \<^verbatim>\<open>null\<close>), the variable afterwards, and the world. \<open>watch_rebuild\<close> is the part after
  the early return: \<^verbatim>\<open>make().then(done).catch(callback)\<close>, where \<^verbatim>\<open>done\<close> stores the
  timestamp and calls \<^verbatim>\<open>callback(null)\<close>.
\<close>

definition falsy_timestamp :: "nat option \<Rightarrow> bool" where
  "falsy_timestamp t = (t = None \<or> t = Some 0)"

definition watch_rebuild ::
  "plugin_call \<Rightarrow> bundler \<Rightarrow> nat \<Rightarrow> nat option \<Rightarrow> nat option \<Rightarrow> world
     \<Rightarrow> rejection option \<times> nat option \<times> world" where
  "watch_rebuild c webpack now timestamp pkgTimestamp w =
     (let w1 = (if log_test (opt_log (plugin_options c))
                then print Log (Text changed_message) w else w);
          (out, w2) = make c webpack now w1
      in case out of
           Resolved \<Rightarrow> (None, timestamp, w2)
         | Rejected e \<Rightarrow> (Some e, pkgTimestamp, w2))"

definition watch_run ::
  "plugin_call \<Rightarrow> bundler \<Rightarrow> nat \<Rightarrow> nat option \<Rightarrow> nat option \<Rightarrow> world
     \<Rightarrow> rejection option \<times> nat option \<times> world" where
  "watch_run c webpack now timestamp pkgTimestamp w =
     (if falsy_timestamp timestamp \<or> timestamp = pkgTimestamp then (None, timestamp, w)
      else watch_rebuild c webpack now timestamp pkgTimestamp w)"

section \<open>Dependency mappings and concrete inputs\<close>

text \<open>
  A dependency mapping, name to version range, as the object \<^verbatim>\<open>JSON.parse\<close> gives for the
  \<^verbatim>\<open>dependencies\<close> of a descriptor.
\<close>

definition dependency_object :: "(string \<times> string) list \<Rightarrow> json" where
  "dependency_object d = JObj (map (\<lambda>(k, v). (k, JStr v)) d)"

text \<open>
  Two calls of the plugin in \<^verbatim>\<open>/app\<close>: with no \<^verbatim>\<open>library\<close> options, and with
  \<^verbatim>\<open>include: ['a', 'b'], exclude: ['b']\<close>.
\<close>

definition call0 :: plugin_call where
  "call0 = \<lparr>cwd = ''/app'', wp_library = None, wp_module = None\<rparr>"

definition call_merge :: plugin_call where
  "call_merge =
     \<lparr>cwd = ''/app'',
      wp_library = Some \<lparr>lib_base = None, lib_dllDirectoryName = None, lib_dllName = None,
                          lib_include = Some [''a'', ''b''], lib_exclude = Some [''b''],
                          lib_log = None, lib_module = None\<rparr>,
      wp_module = None\<rparr>"

text \<open>
  Two bundlers. \<open>ok_bundler\<close> compiles without errors and writes the export manifest and
  the bundle into the output directory, creating it; \<open>failing_bundler\<close> reports one
  compile error and writes nothing.
\<close>

definition ok_bundler :: bundler where
  "ok_bundler cfg f =
     (Stats \<lparr>errors = [], warnings = [], stats_text = ''1 asset''\<rparr>,
      f\<lparr>files := (files f)
            (DllPlugin_path cfg \<mapsto>
               \<lparr>content = JsonText (JObj [(''name'', JStr (fst (entry cfg)))]),
                mtime = 1700000000\<rparr>,
             (output_path cfg, fst (entry cfg) @ ''.js'') \<mapsto>
               \<lparr>content = NotJson ''var vendor;'', mtime = 1700000000\<rparr>),
         dirs := insert (output_path cfg) (dirs f)\<rparr>)"

definition failing_bundler :: bundler where
  "failing_bundler cfg f =
     (Stats \<lparr>errors = [''Module not found: b''], warnings = [], stats_text = ''failed''\<rparr>, f)"

text \<open>
  Descriptors, dependency mappings and worlds: \<open>world_first\<close> has a descriptor and no dll
  directory; \<open>world_cached\<close> has the snapshot of \<^verbatim>\<open>{a: ^1}\<close> and a descriptor that now
  lists \<^verbatim>\<open>{a: ^1, b: ^2}\<close>; \<open>world_corrupt\<close> has a snapshot that is not JSON;
  \<open>world_no_dependencies\<close> has a descriptor without \<^verbatim>\<open>dependencies\<close> and the snapshot
  \<^verbatim>\<open>{}\<close>. \<open>call_quiet\<close> and \<open>call_none\<close> are calls with \<^verbatim>\<open>log: false\<close> and
  \<^verbatim>\<open>log: 'none'\<close>.
\<close>

definition package_json :: "json \<Rightarrow> file_entry" where
  "package_json deps =
     \<lparr>content = JsonText (JObj [(''name'', JStr ''app''), (''dependencies'', deps)]),
      mtime = 1600000000\<rparr>"

definition deps_a :: json where
  "deps_a = dependency_object [(''a'', ''^1'')]"

definition deps_ab :: json where
  "deps_ab = dependency_object [(''a'', ''^1''), (''b'', ''^2'')]"

definition world_first :: world where
  "world_first =
     \<lparr>fs = \<lparr>files = [(''/app'', ''package.json'') \<mapsto> package_json deps_a],
            dirs = {''/app''}\<rparr>,
      console = [], invocations = []\<rparr>"

definition world_cached :: world where
  "world_cached =
     \<lparr>fs = \<lparr>files = [(''/app'', ''package.json'') \<mapsto> package_json deps_ab,
                     (''/app/.dll-cache'', ''dll.json'') \<mapsto>
                        \<lparr>content = JsonText deps_a, mtime = 1650000000\<rparr>,
                     (''/app/.dll-cache'', ''vendor-manifest.json'') \<mapsto>
                        \<lparr>content = JsonText (JObj [(''name'', JStr ''vendor'')]),
                         mtime = 1650000000\<rparr>],
            dirs = {''/app'', ''/app/.dll-cache''}\<rparr>,
      console = [], invocations = []\<rparr>"

definition call_quiet :: plugin_call where
  "call_quiet =
     \<lparr>cwd = ''/app'',
      wp_library = Some \<lparr>lib_base = None, lib_dllDirectoryName = None, lib_dllName = None,
                          lib_include = None, lib_exclude = None,
                          lib_log = Some (LogBool False), lib_module = None\<rparr>,
      wp_module = None\<rparr>"

definition call_none :: plugin_call where
  "call_none =
     \<lparr>cwd = ''/app'',
      wp_library = Some \<lparr>lib_base = None, lib_dllDirectoryName = None, lib_dllName = None,
                          lib_include = None, lib_exclude = None,
                          lib_log = Some LogNone, lib_module = None\<rparr>,
      wp_module = None\<rparr>"

definition world_corrupt :: world where
  "world_corrupt =
     \<lparr>fs = \<lparr>files = [(''/app'', ''package.json'') \<mapsto> package_json deps_a,
                     (''/app/.dll-cache'', ''dll.json'') \<mapsto>
                        \<lparr>content = NotJson ''{ a: '', mtime = 1650000000\<rparr>],
            dirs = {''/app'', ''/app/.dll-cache''}\<rparr>,
      console = [], invocations = []\<rparr>"

definition world_no_dependencies :: world where
  "world_no_dependencies =
     \<lparr>fs = \<lparr>files = [(''/app'', ''package.json'') \<mapsto>
                        \<lparr>content = JsonText (JObj [(''name'', JStr ''app'')]),
                         mtime = 1600000000\<rparr>,
                     (''/app/.dll-cache'', ''dll.json'') \<mapsto>
                        \<lparr>content = JsonText (JObj []), mtime = 1650000000\<rparr>],
            dirs = {''/app'', ''/app/.dll-cache''}\<rparr>,
      console = [], invocations = []\<rparr>"

text \<open>
  Two watch cycles one after the other in \<open>world_cached\<close>, both observing the same
  changed timestamp of the descriptor: \<open>failed_cycle\<close> starts with the initial
  \<^verbatim>\<open>pkgTimestamp = 0\<close> and a bundler that reports a compile error; \<open>retry_cycle\<close> starts
  with the timestamp and the world the first cycle left.
\<close>

definition failed_cycle :: "rejection option \<times> nat option \<times> world" where
  "failed_cycle =
     watch_run call0 failing_bundler 1700000000123 (Some 1700000000000) (Some 0) world_cached"

definition retry_cycle :: "rejection option \<times> nat option \<times> world" where
  "retry_cycle =
     watch_run call0 failing_bundler 1700000060123 (Some 1700000000000)
       (fst (snd failed_cycle)) (snd (snd failed_cycle))"

section \<open>Properties\<close>

subsection \<open>Built-ins and options\<close>

lemma indexOf_from_eq: "0 \<le> i \<Longrightarrow> (indexOf_from xs x i = - 1) = (x \<notin> set xs)"
  by (induction xs arbitrary: i) auto

lemma exclude_test: "(NOT (indexOf xs x) = 0) = (x \<notin> set xs)"
proof -
  have "(NOT (indexOf xs x) = 0) = (indexOf xs x = - 1)"
    by (simp add: not_int_def) 
  then show ?thesis by (simp add: indexOf_def indexOf_from_eq)
qed

lemma build_entry_object:
  "build_entry c (Some (JObj d)) =
     Inr (dllName (plugin_options c),
          filter (\<lambda>x. x \<notin> set (opt_exclude (plugin_options c)))
                 (map fst d @ opt_include (plugin_options c)))"
  by (simp add: build_entry_def exclude_test)

lemma baseIsEqual_refl: "baseIsEqual v v"
proof (induction v)
  case (JArr xs)
  then show ?case by simp
next
  case (JObj kvs)
  have "k \<in> fst ` set kvs \<Longrightarrow> \<exists>v. map_of kvs k = Some v \<and> (k, v) \<in> set kvs" for k
    by (metis domD dom_map_of_conv_image_fst map_of_SomeD)
  with JObj show ?case by fastforce
qed simp_all

lemma map_of_dependency:
  "map_of (map (\<lambda>(k, v). (k, JStr v)) d) k = map_option JStr (map_of d k)"
  by (induction d) auto

lemma keys_dependency: "map fst (map (\<lambda>(k, v). (k, JStr v)) d) = map fst d"
  by (induction d) auto

lemma baseIsEqual_dependency:
  "baseIsEqual (dependency_object c) (dependency_object d) =
     (length c = length d \<and> (\<forall>k \<in> set (map fst c). map_of d k = map_of c k))"
proof -
  have key: "k \<in> set (map fst c) \<Longrightarrow> \<exists>v. map_of c k = Some v" for k
    by (metis domD dom_map_of_conv_image_fst set_map)
  have "baseIsEqual (dependency_object c) (dependency_object d) =
     (length c = length d \<and>
      (\<forall>k \<in> set (map fst c).
         case map_option JStr (map_of d k) of
           None \<Rightarrow> False
         | Some w \<Rightarrow> (case map_option JStr (map_of c k) of
                        None \<Rightarrow> False
                      | Some v \<Rightarrow> baseIsEqual v w)))"
    unfolding dependency_object_def
    by (simp only: baseIsEqual.simps json.case keys_dependency map_of_dependency length_map)
  also have "\<dots> = (length c = length d \<and> (\<forall>k \<in> set (map fst c). map_of d k = map_of c k))"
    using key by (fastforce split: option.splits)
  finally show ?thesis .
qed

lemma dependency_object_equal:
  assumes "distinct (map fst c)" and "distinct (map fst d)"
  shows "baseIsEqual (dependency_object c) (dependency_object d) = (set c = set d)"
proof
  assume eq: "baseIsEqual (dependency_object c) (dependency_object d)"
  then have len: "length c = length d"
    and maps: "\<And>k. k \<in> set (map fst c) \<Longrightarrow> map_of d k = map_of c k"
    by (auto simp add: baseIsEqual_dependency)
  have sub: "set c \<subseteq> set d"
  proof
    fix kv assume mem: "kv \<in> set c"
    obtain k v where "kv = (k, v)" by (cases kv)
    with mem have kv: "kv = (k, v)" "(k, v) \<in> set c" by auto
    then have "map_of c k = Some v" using assms(1) by simp
    moreover have "k \<in> set (map fst c)" using kv by force
    ultimately have "map_of d k = Some v" using maps by simp
    then show "kv \<in> set d" using kv by (auto dest: map_of_SomeD)
  qed
  have "distinct c" "distinct d" using assms by (simp_all add: distinct_map)
  then have "card (set c) = card (set d)" using len by (simp add: distinct_card)
  then show "set c = set d" using sub by (simp add: card_subset_eq)
next
  assume eq: "set c = set d"
  have "distinct c" "distinct d" using assms by (simp_all add: distinct_map)
  then have len: "length c = length d" using eq by (metis distinct_card)
  have "map_of c = map_of d" using assms eq by (simp add: map_of_inject_set)
  then show "baseIsEqual (dependency_object c) (dependency_object d)"
    using len by (simp add: baseIsEqual_dependency)
qed


lemma cache_valid_same: "cache_valid (Some (JObj kvs)) (Some (JObj kvs))"
  unfolding cache_valid_def isEqual.simps truthy.simps
  by (simp only: baseIsEqual_refl simp_thms)

lemma plugin_options_call0: "plugin_options call0 = DefaultOptions ''/app''"
  by (simp add: plugin_options_def call0_def)

lemma plugin_options_call_merge:
  "plugin_options call_merge =
     (DefaultOptions ''/app'')\<lparr>opt_include := [''a'', ''b''], opt_exclude := [''b'']\<rparr>"
  by (simp add: plugin_options_def call_merge_def or_default_def DefaultOptions_def)

subsection \<open>The entry list of the bundle\<close>

text \<open>
  Claim C3 says each name appears once in the entry list. The code concatenates and
  filters, and removes no duplicate: dependencies \<^verbatim>\<open>{a: ^1, c: ^2}\<close> with include
  \<^verbatim>\<open>[a, b]\<close> and exclude \<^verbatim>\<open>[b]\<close> give \<^verbatim>\<open>[a, c, a]\<close>.
\<close>

theorem build_entry_duplicate_counterexample:
  "build_entry call_merge (Some (dependency_object [(''a'', ''^1''), (''c'', ''^2'')]))
     = Inr (''vendor'', [''a'', ''c'', ''a'']) \<and>
   build_entry call_merge (Some (dependency_object [(''a'', ''^1''), (''c'', ''^2'')]))
     \<noteq> Inr (''vendor'', [''a'', ''c''])"
  by (simp add: dependency_object_def build_entry_object plugin_options_call_merge
      DefaultOptions_def)

text \<open>
  Claim C3, amended. The entry list is the dependency names in the order of the
  descriptor's keys, followed by the include names in list order, with every name of the
  exclude list removed; a name that is both a dependency and included stays twice.
\<close>

theorem build_entry_merge:
  "build_entry c (Some (dependency_object d)) =
     Inr (dllName (plugin_options c),
          filter (\<lambda>x. x \<notin> set (opt_exclude (plugin_options c)))
                 (map fst d @ opt_include (plugin_options c)))"
  by (simp add: dependency_object_def build_entry_object keys_dependency del: map_map)

theorem build_entry_merge_witness:
  "build_entry call_merge (Some (dependency_object [(''a'', ''^1''), (''c'', ''^2'')]))
     = Inr (''vendor'', [''a'', ''c'', ''a''])"
  using build_entry_merge [of call_merge "[(''a'', ''^1''), (''c'', ''^2'')]"]
  by (simp add: plugin_options_call_merge DefaultOptions_def)

subsection \<open>The HTML hook\<close>

lemma html_hook_funpow:
  "assets_js ((html_hook c ^^ n) data) = replicate n (dllAssetName c) @ assets_js data"
  by (induction n) (simp_all add: html_hook_def replicate_app_Cons_same)

text \<open>
  Claim C4 says that after any number of runs of the hook the asset name is in the list
  once. Two runs on \<^verbatim>\<open>['main.js']\<close> leave it twice.
\<close>

theorem html_hook_twice_counterexample:
  "count_list (assets_js ((html_hook call0 ^^ 2) \<lparr>assets_js = [''main.js'']\<rparr>))
     (dllAssetName call0) = 2"
  by (simp add: html_hook_def dllAssetName_def plugin_options_call0 DefaultOptions_def
      numeral_2_eq_2)

text \<open>
  Claim C4, amended. Each run of the hook puts the asset name in front of the list:
  after \<open>n\<close> runs the list is \<open>n\<close> copies of the name followed by the list before, so the
  name occurs \<open>n\<close> times more than before. One run on a list without the name leaves it
  exactly once, in front.
\<close>

theorem html_hook_repeated:
  "assets_js ((html_hook c ^^ n) data) = replicate n (dllAssetName c) @ assets_js data \<and>
   count_list (assets_js ((html_hook c ^^ n) data)) (dllAssetName c)
     = n + count_list (assets_js data) (dllAssetName c)"
proof -
  have "count_list (replicate n x @ xs) x = n + count_list xs x" for x :: string and xs
    by (induction n) simp_all
  then show ?thesis by (simp add: html_hook_funpow)
qed

theorem html_hook_repeated_witness:
  "assets_js ((html_hook call0 ^^ 1) \<lparr>assets_js = [''main.js'']\<rparr>)
     = [''vendor.js'', ''main.js''] \<and>
   count_list (assets_js ((html_hook call0 ^^ 1) \<lparr>assets_js = [''main.js'']\<rparr>)) ''vendor.js''
     = 1"
  using html_hook_repeated [where c = call0 and n = 1 and data = "\<lparr>assets_js = [''main.js'']\<rparr>"]
  by (simp add: dllAssetName_def plugin_options_call0 DefaultOptions_def)

subsection \<open>File operations, the callback and build\<close>

lemma paths_differ:
  "manifestPath c \<noteq> dllCachePath c" "dllCachePath c \<noteq> manifestPath c"
  "pkgJsonPath c \<noteq> dllCachePath c" "pkgJsonPath c \<noteq> manifestPath c"
  by (simp_all add: manifestPath_def dllCachePath_def pkgJsonPath_def manifestName_def
      dllCacheName_def)

lemma log_test_always: "log_test l"
  by (cases l) (simp_all add: log_test_def)

lemma build_entry_undefined: "build_entry c None = Inl TypeError"
  by (simp add: build_entry_def)

lemma build_undefined: "build c webpack now None w = (Rejected TypeError, w)"
  by (simp add: build_def build_entry_undefined)

lemma print_fields:
  "fs (print s x w) = fs w" "invocations (print s x w) = invocations w"
  "console (print s x w) = console w @ [(s, x)]"
  by (simp_all add: print_def)

lemma report_stats_fields:
  "fs (report_stats c st w) = fs w" "invocations (report_stats c st w) = invocations w"
  by (simp_all add: report_stats_def Let_def print_fields)

lemma report_fatal_fields:
  "fs (report_fatal err w) = fs w" "invocations (report_fatal err w) = invocations w"
  by (simp_all add: report_fatal_def Let_def print_fields split: option.splits)

lemma touch_and_save_fields:
  "console (snd (touch_and_save c now d w)) = console w"
  "invocations (snd (touch_and_save c now d w)) = invocations w"
  by (simp_all add: touch_and_save_def Let_def)

lemma touch_and_save_ok:
  assumes "files (fs w) (manifestPath c) = Some f" and "dllDirectory c \<in> dirs (fs w)"
  shows "touch_and_save c now d w =
     (None, w\<lparr>fs := (fs w)\<lparr>files := (files (fs w))
                (manifestPath c \<mapsto> f\<lparr>mtime := rat_of_nat now / 1000 - 10\<rparr>,
                 dllCachePath c \<mapsto> \<lparr>content = JSON_stringify d,
                                     mtime = rat_of_nat now / 1000\<rparr>)\<rparr>\<rparr>)"
  using assms
  by (simp add: touch_and_save_def Let_def utimes_def writeFile_def dllCachePath_def)

lemma touch_and_save_writes:
  assumes "dllDirectory c \<in> dirs (fs w)"
  shows "files (fs (snd (touch_and_save c now d w))) (dllCachePath c) =
     Some \<lparr>content = JSON_stringify d, mtime = rat_of_nat now / 1000\<rparr>"
  using assms
  by (simp add: touch_and_save_def Let_def utimes_def writeFile_def dllCachePath_def
      split: option.splits)

lemma touch_and_save_done:
  assumes "fst (touch_and_save c now d w) = None"
  shows "map_option mtime (files (fs (snd (touch_and_save c now d w))) (manifestPath c))
           = Some (rat_of_nat now / 1000 - 10) \<and>
         files (fs (snd (touch_and_save c now d w))) (dllCachePath c)
           = Some \<lparr>content = JSON_stringify d, mtime = rat_of_nat now / 1000\<rparr>"
proof (cases "files (fs w) (manifestPath c)")
  case None
  with assms show ?thesis by (simp add: touch_and_save_def Let_def utimes_def)
next
  case (Some f)
  show ?thesis
  proof (cases "dllDirectory c \<in> dirs (fs w)")
    case True
    with Some show ?thesis by (simp add: touch_and_save_ok paths_differ)
  next
    case False
    with Some assms show ?thesis
      by (simp add: touch_and_save_def Let_def utimes_def writeFile_def dllCachePath_def)
  qed
qed

lemma bundler_callback_settles: "fst (bundler_callback c now d result w) \<noteq> None"
  by (simp add: bundler_callback_def Let_def settle_def case_prod_unfold
      split: bundler_result.splits option.splits)

lemma bundler_callback_invocations:
  "invocations (snd (bundler_callback c now d result w)) = invocations w"
  by (simp add: bundler_callback_def Let_def case_prod_unfold print_fields
      touch_and_save_fields report_stats_fields report_fatal_fields
      split: bundler_result.splits option.splits)

lemma bundler_callback_fs:
  "fs (snd (bundler_callback c now d (Stats st) w))
     = fs (snd (touch_and_save c now d (report_stats c st w)))"
  by (simp add: bundler_callback_def Let_def case_prod_unfold print_fields
      split: option.splits)

lemma bundler_callback_errors:
  assumes "errors st \<noteq> []"
  shows "fst (bundler_callback c now d (Stats st) w)
           = Some (Rejected (CompileErrors (errors st)))"
  using assms
  by (simp add: bundler_callback_def Let_def settle_def case_prod_unfold
      split: option.splits)

lemma bundler_callback_resolved:
  assumes "fst (bundler_callback c now d result w) = Some Resolved"
  shows "\<exists>st. result = Stats st \<and> errors st = [] \<and>
              fst (touch_and_save c now d (report_stats c st w)) = None"
proof (cases result)
  case (Failed err)
  with assms show ?thesis by (simp add: bundler_callback_def settle_def)
next
  case (Stats st)
  with assms show ?thesis
    by (simp add: bundler_callback_def Let_def settle_def case_prod_unfold
        split: option.splits if_splits)
qed

lemma build_defined:
  assumes "build_entry c (Some d) = Inr e"
  shows "build c webpack now (Some d) w =
     (case fst (bundler_callback c now d (fst (webpack (build_config c e) (fs w)))
                  (w\<lparr>fs := snd (webpack (build_config c e) (fs w)),
                     invocations := invocations w @ [build_config c e]\<rparr>)) of
        None \<Rightarrow> Resolved
      | Some out \<Rightarrow> out,
      snd (bundler_callback c now d (fst (webpack (build_config c e) (fs w)))
             (w\<lparr>fs := snd (webpack (build_config c e) (fs w)),
                invocations := invocations w @ [build_config c e]\<rparr>)))"
  using assms
  by (simp add: build_def Let_def case_prod_unfold split: option.splits)

lemma build_rejects_or_entry:
  "fst (build c webpack now deps w) = Resolved \<Longrightarrow>
     \<exists>d e. deps = Some d \<and> build_entry c (Some d) = Inr e"
  by (cases deps; cases "build_entry c deps") (simp_all add: build_def)


lemma build_resolved_files:
  assumes "fst (build c webpack now deps w) = Resolved"
  shows "\<exists>d. deps = Some d \<and>
           map_option mtime (files (fs (snd (build c webpack now deps w))) (manifestPath c))
             = Some (rat_of_nat now / 1000 - 10) \<and>
           files (fs (snd (build c webpack now deps w))) (dllCachePath c)
             = Some \<lparr>content = JSON_stringify d, mtime = rat_of_nat now / 1000\<rparr>"
proof -
  from assms obtain d e where d: "deps = Some d" and e: "build_entry c (Some d) = Inr e"
    using build_rejects_or_entry by blast
  define result where "result = fst (webpack (build_config c e) (fs w))"
  define w1 where "w1 = w\<lparr>fs := snd (webpack (build_config c e) (fs w)),
                          invocations := invocations w @ [build_config c e]\<rparr>"
  have b: "build c webpack now deps w =
     (case fst (bundler_callback c now d result w1) of None \<Rightarrow> Resolved | Some out \<Rightarrow> out,
      snd (bundler_callback c now d result w1))"
    unfolding d result_def w1_def using e by (rule build_defined)
  have "fst (bundler_callback c now d result w1) = Some Resolved"
    using assms b bundler_callback_settles [of c now d result w1]
    by (cases "fst (bundler_callback c now d result w1)") simp_all
  then obtain st where st: "result = Stats st"
    and saved: "fst (touch_and_save c now d (report_stats c st w1)) = None"
    using bundler_callback_resolved by blast
  have "fs (snd (build c webpack now deps w))
          = fs (snd (touch_and_save c now d (report_stats c st w1)))"
    using b st by (simp add: bundler_callback_fs)
  with touch_and_save_done [OF saved] d show ?thesis by simp
qed

lemma build_compile_errors:
  assumes "build_entry c (Some d) = Inr e"
    and "webpack (build_config c e) (fs w) = (Stats st, fs1)"
    and "errors st \<noteq> []"
  shows "fst (build c webpack now (Some d) w) = Rejected (CompileErrors (errors st))"
    and "dllDirectory c \<in> dirs fs1 \<Longrightarrow>
         files (fs (snd (build c webpack now (Some d) w))) (dllCachePath c)
           = Some \<lparr>content = JSON_stringify d, mtime = rat_of_nat now / 1000\<rparr>"
    and "console (snd (build c webpack now (Some d) w))
           = console (report_stats c st w) @
             (if fst (touch_and_save c now d
                        (report_stats c st (w\<lparr>fs := fs1,
                           invocations := invocations w @ [build_config c e]\<rparr>))) = None
              then [(Log, Text success_message)] else [])"
proof -
  define w1 where "w1 = w\<lparr>fs := fs1, invocations := invocations w @ [build_config c e]\<rparr>"
  have b: "build c webpack now (Some d) w =
     (case fst (bundler_callback c now d (Stats st) w1) of None \<Rightarrow> Resolved | Some out \<Rightarrow> out,
      snd (bundler_callback c now d (Stats st) w1))"
    using build_defined [OF assms(1), of webpack now w] assms(2) by (simp add: w1_def)
  show "fst (build c webpack now (Some d) w) = Rejected (CompileErrors (errors st))"
    using b assms(3) by (simp add: bundler_callback_errors)
  show "files (fs (snd (build c webpack now (Some d) w))) (dllCachePath c)
           = Some \<lparr>content = JSON_stringify d, mtime = rat_of_nat now / 1000\<rparr>"
    if "dllDirectory c \<in> dirs fs1"
  proof -
    have "dllDirectory c \<in> dirs (fs (report_stats c st w1))"
      using that by (simp add: report_stats_fields w1_def)
    then show ?thesis
      using b by (simp add: bundler_callback_fs touch_and_save_writes)
  qed
  have "console (report_stats c st w1) = console (report_stats c st w)"
    by (simp add: report_stats_def Let_def print_def w1_def)
  then show "console (snd (build c webpack now (Some d) w))
           = console (report_stats c st w) @
             (if fst (touch_and_save c now d
                        (report_stats c st (w\<lparr>fs := fs1,
                           invocations := invocations w @ [build_config c e]\<rparr>))) = None
              then [(Log, Text success_message)] else [])"
    using b
    by (simp add: bundler_callback_def Let_def case_prod_unfold log_test_always print_fields
        touch_and_save_fields w1_def split: option.splits)
qed

lemma build_success:
  assumes "build_entry c (Some d) = Inr e"
    and "webpack (build_config c e) (fs w) = (Stats st, fs1)"
    and "errors st = []"
    and "files fs1 (manifestPath c) = Some f"
    and "dllDirectory c \<in> dirs fs1"
  shows "build c webpack now (Some d) w =
     (Resolved,
      (report_stats c st w)
        \<lparr>fs := fs1\<lparr>files := (files fs1)
                  (manifestPath c \<mapsto> f\<lparr>mtime := rat_of_nat now / 1000 - 10\<rparr>,
                   dllCachePath c \<mapsto> \<lparr>content = JSON_stringify d,
                                       mtime = rat_of_nat now / 1000\<rparr>)\<rparr>,
          console := console (report_stats c st w) @ [(Log, Text success_message)],
          invocations := invocations w @ [build_config c e]\<rparr>)"
proof -
  define w1 where "w1 = w\<lparr>fs := fs1, invocations := invocations w @ [build_config c e]\<rparr>"
  have b: "build c webpack now (Some d) w =
     (case fst (bundler_callback c now d (Stats st) w1) of None \<Rightarrow> Resolved | Some out \<Rightarrow> out,
      snd (bundler_callback c now d (Stats st) w1))"
    using build_defined [OF assms(1), of webpack now w] assms(2) by (simp add: w1_def)
  have r: "report_stats c st w1 =
             (report_stats c st w)\<lparr>fs := fs1, invocations := invocations w @ [build_config c e]\<rparr>"
    by (simp add: report_stats_def Let_def print_def w1_def)
  have "files (fs (report_stats c st w1)) (manifestPath c) = Some f"
    and "dllDirectory c \<in> dirs (fs (report_stats c st w1))"
    using assms(4,5) by (simp_all add: report_stats_fields w1_def)
  from touch_and_save_ok [OF this, of now d] assms(3) show ?thesis
    unfolding b
    by (simp add: bundler_callback_def settle_def log_test_always print_def r)
qed


lemma build_invocations:
  assumes "build_entry c (Some d) = Inr e"
  shows "invocations (snd (build c webpack now (Some d) w)) = invocations w @ [build_config c e]"
  using build_defined [OF assms, of webpack now w]
  by (simp add: bundler_callback_invocations)

lemma build_stats_fs:
  assumes "build_entry c (Some d) = Inr e"
    and "webpack (build_config c e) (fs w) = (Stats st, fs1)"
    and "files fs1 (manifestPath c) = Some f"
    and "dllDirectory c \<in> dirs fs1"
  shows "fs (snd (build c webpack now (Some d) w)) =
     fs1\<lparr>files := (files fs1)
           (manifestPath c \<mapsto> f\<lparr>mtime := rat_of_nat now / 1000 - 10\<rparr>,
            dllCachePath c \<mapsto> \<lparr>content = JSON_stringify d,
                                mtime = rat_of_nat now / 1000\<rparr>)\<rparr>"
proof -
  define w1 where "w1 = w\<lparr>fs := fs1, invocations := invocations w @ [build_config c e]\<rparr>"
  have b: "build c webpack now (Some d) w =
     (case fst (bundler_callback c now d (Stats st) w1) of None \<Rightarrow> Resolved | Some out \<Rightarrow> out,
      snd (bundler_callback c now d (Stats st) w1))"
    using build_defined [OF assms(1), of webpack now w] assms(2) by (simp add: w1_def)
  have "files (fs (report_stats c st w1)) (manifestPath c) = Some f"
    and "dllDirectory c \<in> dirs (fs (report_stats c st w1))"
    using assms(3,4) by (simp_all add: report_stats_fields w1_def)
  from touch_and_save_ok [OF this, of now d] show ?thesis
    by (simp add: b bundler_callback_fs report_stats_fields w1_def)
qed

lemma read_cache_missing:
  "files (fs w) (dllCachePath c) = None \<Longrightarrow>
     read_cache c w = (None, print Log (Text start_message) w)"
  by (simp add: read_cache_def readFile_def log_test_always)

lemma read_cache_corrupt:
  "files (fs w) (dllCachePath c) = Some f \<Longrightarrow> content f = NotJson t \<Longrightarrow>
     read_cache c w = (None, print Log (Text start_message) w)"
  by (simp add: read_cache_def readFile_def log_test_always)

lemma read_cache_parsed:
  "files (fs w) (dllCachePath c) = Some f \<Longrightarrow> content f = JsonText v \<Longrightarrow>
     read_cache c w = (Some v, w)"
  by (simp add: read_cache_def readFile_def)

lemma make_decides:
  "read_deps c w = Inr deps \<Longrightarrow>
     make c webpack now w =
       (if cache_valid (fst (read_cache c w)) deps then (Resolved, snd (read_cache c w))
        else build c webpack now deps (snd (read_cache c w)))"
  by (simp add: make_def case_prod_unfold)

lemma read_deps_object:
  "files (fs w) (pkgJsonPath c) = Some f \<Longrightarrow> content f = JsonText (JObj kvs) \<Longrightarrow>
     read_deps c w = Inr (map_of kvs ''dependencies'')"
  by (simp add: read_deps_def readFile_def)

lemma cache_valid_undefined: "\<not> cache_valid cache None"
  by (cases cache) (simp_all add: cache_valid_def)

lemma default_paths:
  assumes "plugin_options c = (DefaultOptions ''/app'')\<lparr>opt_log := l\<rparr>"
  shows "dllDirectory c = ''/app/.dll-cache''"
    and "manifestPath c = (''/app/.dll-cache'', ''vendor-manifest.json'')"
    and "dllCachePath c = (''/app/.dll-cache'', ''dll.json'')"
    and "pkgJsonPath c = (''/app'', ''package.json'')"
    and "dllName (plugin_options c) = ''vendor''"
    and "opt_log (plugin_options c) = l"
  by (simp_all add: dllDirectory_def manifestPath_def dllCachePath_def pkgJsonPath_def
      manifestName_def dllCacheName_def assms DefaultOptions_def)

lemma default_entry:
  assumes "plugin_options c = (DefaultOptions ''/app'')\<lparr>opt_log := l\<rparr>"
  shows "build_entry c (Some (dependency_object d)) = Inr (''vendor'', map fst d)"
  by (simp add: dependency_object_def build_entry_object assms
      DefaultOptions_def keys_dependency del: map_map)

lemma ok_bundler_default:
  assumes o: "plugin_options c = (DefaultOptions ''/app'')\<lparr>opt_log := l\<rparr>"
    and l: "l \<noteq> LogVerbose"
  shows "build c ok_bundler now (Some (dependency_object d)) w =
     (Resolved,
      w\<lparr>fs := \<lparr>files = (files (fs w))
                  ((''/app/.dll-cache'', ''vendor.js'') \<mapsto>
                     \<lparr>content = NotJson ''var vendor;'', mtime = 1700000000\<rparr>,
                   (''/app/.dll-cache'', ''vendor-manifest.json'') \<mapsto>
                     \<lparr>content = JsonText (JObj [(''name'', JStr ''vendor'')]),
                      mtime = rat_of_nat now / 1000 - 10\<rparr>,
                   (''/app/.dll-cache'', ''dll.json'') \<mapsto>
                     \<lparr>content = JsonText (dependency_object d),
                      mtime = rat_of_nat now / 1000\<rparr>),
                dirs = insert ''/app/.dll-cache'' (dirs (fs w))\<rparr>,
        console := console w @ [(Log, Text success_message)],
        invocations := invocations w @ [build_config c (''vendor'', map fst d)]\<rparr>)"
proof -
  note p = default_paths [OF o]
  let ?st = "\<lparr>errors = [], warnings = [], stats_text = ''1 asset''\<rparr>"
  let ?f = "\<lparr>content = JsonText (JObj [(''name'', JStr ''vendor'')]), mtime = 1700000000\<rparr>"
  let ?fs1 = "(fs w)\<lparr>files := (files (fs w))
            ((''/app/.dll-cache'', ''vendor-manifest.json'') \<mapsto> ?f,
             (''/app/.dll-cache'', ''vendor.js'') \<mapsto>
               \<lparr>content = NotJson ''var vendor;'', mtime = 1700000000\<rparr>),
         dirs := insert ''/app/.dll-cache'' (dirs (fs w))\<rparr>"
  have 1: "ok_bundler (build_config c (''vendor'', map fst d)) (fs w) = (Stats ?st, ?fs1)"
    by (simp add: ok_bundler_def build_config_def p)
  have 2: "errors ?st = []" by simp
  have 3: "files ?fs1 (manifestPath c) = Some ?f" by (simp add: p)
  have 4: "dllDirectory c \<in> dirs ?fs1" by (simp add: p)
  have 5: "report_stats c ?st w = w"
    using l by (simp add: report_stats_def p)
  have "build c ok_bundler now (Some (dependency_object d)) w =
     (Resolved,
      (report_stats c ?st w)
        \<lparr>fs := ?fs1\<lparr>files := (files ?fs1)
                  (manifestPath c \<mapsto> ?f\<lparr>mtime := rat_of_nat now / 1000 - 10\<rparr>,
                   dllCachePath c \<mapsto> \<lparr>content = JSON_stringify (dependency_object d),
                                       mtime = rat_of_nat now / 1000\<rparr>)\<rparr>,
          console := console (report_stats c ?st w) @ [(Log, Text success_message)],
          invocations := invocations w @ [build_config c (''vendor'', map fst d)]\<rparr>)"
    using default_entry [OF o] 1 2 3 4 by (rule build_success)
  then show ?thesis
    unfolding 5 by (simp add: p JSON_stringify_def fun_upd_twist)
qed

lemma options_call0: "plugin_options call0 = (DefaultOptions ''/app'')\<lparr>opt_log := LogBool True\<rparr>"
  by (simp add: plugin_options_def call0_def DefaultOptions_def)

lemma options_call_quiet:
  "plugin_options call_quiet = (DefaultOptions ''/app'')\<lparr>opt_log := LogBool False\<rparr>"
  by (simp add: plugin_options_def call_quiet_def DefaultOptions_def or_default_def)

lemma options_call_none:
  "plugin_options call_none = (DefaultOptions ''/app'')\<lparr>opt_log := LogNone\<rparr>"
  by (simp add: plugin_options_def call_none_def DefaultOptions_def or_default_def)

lemmas call0_paths = default_paths [OF options_call0]

lemmas call0_entry = default_entry [OF options_call0]

lemma ok_bundler_call0:
  "build call0 ok_bundler now (Some (dependency_object d)) w =
     (Resolved,
      w\<lparr>fs := \<lparr>files = (files (fs w))
                  ((''/app/.dll-cache'', ''vendor.js'') \<mapsto>
                     \<lparr>content = NotJson ''var vendor;'', mtime = 1700000000\<rparr>,
                   (''/app/.dll-cache'', ''vendor-manifest.json'') \<mapsto>
                     \<lparr>content = JsonText (JObj [(''name'', JStr ''vendor'')]),
                      mtime = rat_of_nat now / 1000 - 10\<rparr>,
                   (''/app/.dll-cache'', ''dll.json'') \<mapsto>
                     \<lparr>content = JsonText (dependency_object d),
                      mtime = rat_of_nat now / 1000\<rparr>),
                dirs = insert ''/app/.dll-cache'' (dirs (fs w))\<rparr>,
        console := console w @ [(Log, Text success_message)],
        invocations := invocations w @ [build_config call0 (''vendor'', map fst d)]\<rparr>)"
  by (rule ok_bundler_default [OF options_call0]) simp

lemma failing_bundler_call0:
  "failing_bundler (build_config call0 e) f =
     (Stats \<lparr>errors = [''Module not found: b''], warnings = [], stats_text = ''failed''\<rparr>, f)"
  by (simp add: failing_bundler_def)

subsection \<open>The rebuild decision\<close>

text \<open>
  Claim C1. \<open>make\<close> returns without building exactly when the check
  \<^verbatim>\<open>cache && isEqual(cache, deps)\<close> holds, and builds otherwise. The check decides to
  rebuild whenever no cached manifest was loaded; with a cached mapping and a current
  mapping (each key once), it decides to rebuild exactly when the two differ as sets of
  name-to-range pairs, whatever the order of their keys; a mapping compared with itself
  is never rebuilt.
\<close>

theorem make_rebuild_decision:
  "(read_deps c w = Inr deps \<longrightarrow>
      make c webpack now w =
        (if cache_valid (fst (read_cache c w)) deps then (Resolved, snd (read_cache c w))
         else build c webpack now deps (snd (read_cache c w)))) \<and>
   \<not> cache_valid None deps \<and>
   (distinct (map fst k) \<and> distinct (map fst d) \<longrightarrow>
      (\<not> cache_valid (Some (dependency_object k)) (Some (dependency_object d)))
        = (set k \<noteq> set d)) \<and>
   cache_valid (Some (dependency_object d)) (Some (dependency_object d))"
proof (intro conjI impI)
  assume "read_deps c w = Inr deps"
  then show "make c webpack now w =
        (if cache_valid (fst (read_cache c w)) deps then (Resolved, snd (read_cache c w))
         else build c webpack now deps (snd (read_cache c w)))"
    by (rule make_decides)
next
  show "\<not> cache_valid None deps"
    by (simp add: cache_valid_def)
next
  assume "distinct (map fst k) \<and> distinct (map fst d)"
  then have "baseIsEqual (dependency_object k) (dependency_object d) = (set k = set d)"
    by (simp add: dependency_object_equal)
  then show "(\<not> cache_valid (Some (dependency_object k)) (Some (dependency_object d)))
        = (set k \<noteq> set d)"
    by (simp add: cache_valid_def dependency_object_def)
next
  show "cache_valid (Some (dependency_object d)) (Some (dependency_object d))"
    unfolding dependency_object_def by (rule cache_valid_same)
qed

theorem make_rebuild_decision_witness:
  "\<not> cache_valid None (Some deps_a) \<and>
   \<not> cache_valid (Some (dependency_object [(''a'', ''^1'')]))
                  (Some (dependency_object [(''a'', ''^1''), (''b'', ''^2'')])) \<and>
   \<not> cache_valid (Some (dependency_object [(''a'', ''^1'')]))
                  (Some (dependency_object [(''a'', ''^2'')])) \<and>
   cache_valid (Some (dependency_object [(''b'', ''^2''), (''a'', ''^1'')]))
               (Some (dependency_object [(''a'', ''^1''), (''b'', ''^2'')])) \<and>
   fst (make call0 ok_bundler 1700000000123 world_cached) = Resolved \<and>
   invocations (snd (make call0 ok_bundler 1700000000123 world_cached))
     = [build_config call0 (''vendor'', [''a'', ''b''])]"
proof -
  have 1: "\<not> cache_valid (Some (dependency_object [(''a'', ''^1'')]))
                  (Some (dependency_object [(''a'', ''^1''), (''b'', ''^2'')]))"
    using make_rebuild_decision [where k = "[(''a'', ''^1'')]"
        and d = "[(''a'', ''^1''), (''b'', ''^2'')]"]
    by auto
  have 2: "\<not> cache_valid (Some (dependency_object [(''a'', ''^1'')]))
                  (Some (dependency_object [(''a'', ''^2'')]))"
    using make_rebuild_decision [where k = "[(''a'', ''^1'')]" and d = "[(''a'', ''^2'')]"]
    by auto
  have 3: "cache_valid (Some (dependency_object [(''b'', ''^2''), (''a'', ''^1'')]))
               (Some (dependency_object [(''a'', ''^1''), (''b'', ''^2'')]))"
    using make_rebuild_decision [where k = "[(''b'', ''^2''), (''a'', ''^1'')]"
        and d = "[(''a'', ''^1''), (''b'', ''^2'')]"]
    by auto
  have d: "read_deps call0 world_cached = Inr (Some deps_ab)"
    by (simp add: read_deps_def readFile_def world_cached_def call0_paths package_json_def)
  have rc: "read_cache call0 world_cached = (Some deps_a, world_cached)"
    by (simp add: read_cache_def readFile_def world_cached_def call0_paths)
  have "make call0 ok_bundler 1700000000123 world_cached
          = build call0 ok_bundler 1700000000123 (Some deps_ab) world_cached"
    using make_rebuild_decision [where c = call0 and w = world_cached and deps = "Some deps_ab"
        and webpack = ok_bundler and now = 1700000000123] d 1
    by (simp add: rc deps_a_def deps_ab_def)
  then have 4: "fst (make call0 ok_bundler 1700000000123 world_cached) = Resolved \<and>
     invocations (snd (make call0 ok_bundler 1700000000123 world_cached))
       = [build_config call0 (''vendor'', [''a'', ''b''])]"
    by (simp add: deps_ab_def ok_bundler_call0 world_cached_def)
  show ?thesis
    using make_rebuild_decision [where deps = "Some deps_a"] 1 2 3 4
    by blast
qed

subsection \<open>A build with compile errors\<close>

text \<open>
  Claim C2 says a build with compile errors rejects and leaves the snapshot as it was.
  The callback calls \<^verbatim>\<open>reject(info.errors)\<close> and then goes on: in \<open>world_cached\<close>, with a
  bundler that reports a compile error, the promise of \<open>build\<close> is rejected with the
  error text, and \<^verbatim>\<open>dll.json\<close>, which held \<^verbatim>\<open>{a: ^1}\<close>, now holds \<^verbatim>\<open>{a: ^1, b: ^2}\<close>.
\<close>

theorem build_compile_error_overwrites_cache:
  "fst (build call0 failing_bundler 1700000000123 (Some deps_ab) world_cached)
     = Rejected (CompileErrors [''Module not found: b'']) \<and>
   map_option content (files (fs world_cached) (dllCachePath call0)) = Some (JsonText deps_a) \<and>
   map_option content
     (files (fs (snd (build call0 failing_bundler 1700000000123 (Some deps_ab) world_cached)))
        (dllCachePath call0)) = Some (JsonText deps_ab) \<and>
   deps_a \<noteq> deps_ab"
proof -
  let ?st = "\<lparr>errors = [''Module not found: b''], warnings = [], stats_text = ''failed''\<rparr>"
  have e: "build_entry call0 (Some deps_ab) = Inr (''vendor'', [''a'', ''b''])"
    using call0_entry [of "[(''a'', ''^1''), (''b'', ''^2'')]"] by (simp add: deps_ab_def)
  have b: "failing_bundler (build_config call0 (''vendor'', [''a'', ''b''])) (fs world_cached)
             = (Stats ?st, fs world_cached)"
    by (rule failing_bundler_call0)
  have n: "errors ?st \<noteq> []" by simp
  have d: "dllDirectory call0 \<in> dirs (fs world_cached)"
    by (simp add: call0_paths world_cached_def)
  have "fst (build call0 failing_bundler 1700000000123 (Some deps_ab) world_cached)
          = Rejected (CompileErrors (errors ?st))"
    using e b n by (rule build_compile_errors(1))
  moreover have "files (fs (snd (build call0 failing_bundler 1700000000123 (Some deps_ab)
                     world_cached))) (dllCachePath call0)
          = Some \<lparr>content = JSON_stringify deps_ab, mtime = rat_of_nat 1700000000123 / 1000\<rparr>"
    using e b n d by (rule build_compile_errors(2))
  moreover have "map_option content (files (fs world_cached) (dllCachePath call0))
          = Some (JsonText deps_a)"
    by (simp add: call0_paths world_cached_def)
  moreover have "deps_a \<noteq> deps_ab"
    by (simp add: deps_a_def deps_ab_def dependency_object_def)
  ultimately show ?thesis by (simp add: JSON_stringify_def)
qed

subsection \<open>Loading the snapshot\<close>

text \<open>
  Claim C5. When the snapshot file is missing, or is there but is not JSON, loading it
  gives no cached manifest and raises nothing: the file system is as before, and \<open>make\<close>
  goes on to \<open>build\<close> with the dependencies it read; for a dependencies object the
  bundler is then invoked with the entry built from it.
\<close>

theorem load_snapshot_absent:
  assumes "files (fs w) (dllCachePath c) = None \<or>
           (\<exists>f t. files (fs w) (dllCachePath c) = Some f \<and> content f = NotJson t)"
  shows "fst (read_cache c w) = None \<and>
         fs (snd (read_cache c w)) = fs w \<and>
         (read_deps c w = Inr deps \<longrightarrow>
            make c webpack now w = build c webpack now deps (snd (read_cache c w))) \<and>
         (read_deps c w = Inr (Some (JObj kvs)) \<longrightarrow>
            invocations (snd (make c webpack now w)) =
              invocations w @
              [build_config c
                 (dllName (plugin_options c),
                  filter (\<lambda>x. x \<notin> set (opt_exclude (plugin_options c)))
                         (map fst kvs @ opt_include (plugin_options c)))])"
proof -
  from assms have rc: "read_cache c w = (None, print Log (Text start_message) w)"
    by (auto simp: read_cache_missing read_cache_corrupt)
  have none: "\<not> cache_valid None d" for d
    by (simp add: cache_valid_def)
  have m: "make c webpack now w = build c webpack now d (snd (read_cache c w))"
    if "read_deps c w = Inr d" for d
    using make_decides [OF that, of webpack now] none by (simp add: rc)
  have inv: "invocations (snd (make c webpack now w)) =
              invocations w @
              [build_config c
                 (dllName (plugin_options c),
                  filter (\<lambda>x. x \<notin> set (opt_exclude (plugin_options c)))
                         (map fst kvs @ opt_include (plugin_options c)))]"
    if "read_deps c w = Inr (Some (JObj kvs))"
    using m [OF that]
      build_invocations [OF build_entry_object, of c webpack now kvs "snd (read_cache c w)"]
    by (simp add: rc print_fields)
  show ?thesis using rc m inv by (simp add: print_fields)
qed

theorem load_snapshot_absent_witness:
  "fst (read_cache call0 world_first) = None \<and>
   fst (make call0 ok_bundler 1700000000123 world_first) = Resolved \<and>
   invocations (snd (make call0 ok_bundler 1700000000123 world_first))
     = [build_config call0 (''vendor'', [''a''])] \<and>
   fst (read_cache call0 world_corrupt) = None \<and>
   fst (make call0 ok_bundler 1700000000123 world_corrupt) = Resolved"
proof -
  have ac: "files (fs world_corrupt) (dllCachePath call0) = None \<or>
           (\<exists>f t. files (fs world_corrupt) (dllCachePath call0) = Some f \<and>
                  content f = NotJson t)"
    by (simp add: world_corrupt_def call0_paths)
  have dc: "read_deps call0 world_corrupt = Inr (Some deps_a)"
    by (simp add: read_deps_def readFile_def world_corrupt_def call0_paths package_json_def)
  note tc = load_snapshot_absent [OF ac, of "Some deps_a" ok_bundler 1700000000123 "[]"]
  have 4: "fst (read_cache call0 world_corrupt) = None"
    using tc by simp
  have "make call0 ok_bundler 1700000000123 world_corrupt
          = build call0 ok_bundler 1700000000123 (Some deps_a)
              (snd (read_cache call0 world_corrupt))"
    using tc dc by simp
  then have 5: "fst (make call0 ok_bundler 1700000000123 world_corrupt) = Resolved"
    by (simp add: deps_a_def ok_bundler_call0)
  have a: "files (fs world_first) (dllCachePath call0) = None \<or>
           (\<exists>f t. files (fs world_first) (dllCachePath call0) = Some f \<and> content f = NotJson t)"
    by (simp add: world_first_def call0_paths)
  have d: "read_deps call0 world_first = Inr (Some deps_a)"
    by (simp add: read_deps_def readFile_def world_first_def call0_paths package_json_def)
  have i: "invocations world_first = []" by (simp add: world_first_def)
  note t = load_snapshot_absent [OF a, of "Some deps_a" ok_bundler 1700000000123
      "[(''a'', JStr ''^1'')]"]
  have 1: "fst (read_cache call0 world_first) = None"
    using t by simp
  have "make call0 ok_bundler 1700000000123 world_first
          = build call0 ok_bundler 1700000000123 (Some deps_a) (snd (read_cache call0 world_first))"
    using t d by simp
  then have 2: "fst (make call0 ok_bundler 1700000000123 world_first) = Resolved"
    by (simp add: deps_a_def ok_bundler_call0)
  have "read_deps call0 world_first = Inr (Some (JObj [(''a'', JStr ''^1'')]))"
    using d by (simp add: deps_a_def dependency_object_def)
  with t have "invocations (snd (make call0 ok_bundler 1700000000123 world_first)) =
              invocations world_first @
              [build_config call0
                 (dllName (plugin_options call0),
                  filter (\<lambda>x. x \<notin> set (opt_exclude (plugin_options call0)))
                         (map fst [(''a'', JStr ''^1'')] @ opt_include (plugin_options call0)))]"
    by blast
  then have 3: "invocations (snd (make call0 ok_bundler 1700000000123 world_first))
     = [build_config call0 (''vendor'', [''a''])]"
    by (simp add: i plugin_options_call0 DefaultOptions_def)
  from 1 2 3 4 5 show ?thesis by simp
qed

subsection \<open>Round trip through the snapshot\<close>

text \<open>
  Claim C6. After \<open>build\<close> of a dependencies object has resolved, in every world that
  has the snapshot file as the build left it and whose descriptor still has these
  dependencies, loading the snapshot gives back the object, \<^verbatim>\<open>isEqual\<close> to it, and
  \<open>make\<close> resolves with the world untouched: nothing is printed, written or bundled.
\<close>

theorem snapshot_round_trip:
  assumes "fst (build c webpack now (Some (JObj kvs)) w) = Resolved"
    and "files (fs w2) (dllCachePath c)
           = files (fs (snd (build c webpack now (Some (JObj kvs)) w))) (dllCachePath c)"
    and "read_deps c w2 = Inr (Some (JObj kvs))"
  shows "readFile (dllCachePath c) (fs w2) = Normal (JSON_stringify (JObj kvs)) \<and>
         read_cache c w2 = (Some (JObj kvs), w2) \<and>
         isEqual (fst (read_cache c w2)) (Some (JObj kvs)) \<and>
         make c webpack2 now2 w2 = (Resolved, w2)"
proof -
  from build_resolved_files [OF assms(1)]
  have "files (fs (snd (build c webpack now (Some (JObj kvs)) w))) (dllCachePath c)
          = Some \<lparr>content = JSON_stringify (JObj kvs), mtime = rat_of_nat now / 1000\<rparr>"
    by simp
  with assms(2)
  have f: "files (fs w2) (dllCachePath c)
          = Some \<lparr>content = JSON_stringify (JObj kvs), mtime = rat_of_nat now / 1000\<rparr>"
    by simp
  then have r: "readFile (dllCachePath c) (fs w2) = Normal (JSON_stringify (JObj kvs))"
    by (simp add: readFile_def)
  have rc: "read_cache c w2 = (Some (JObj kvs), w2)"
    using f by (simp add: read_cache_parsed JSON_stringify_def)
  have "make c webpack2 now2 w2 = (Resolved, w2)"
    using make_decides [OF assms(3), of webpack2 now2] by (simp add: rc cache_valid_same)
  with r rc show ?thesis by (simp add: baseIsEqual_refl)
qed

theorem snapshot_round_trip_witness:
  "fst (build call0 ok_bundler 1700000000123 (Some deps_a) world_first) = Resolved \<and>
   make call0 failing_bundler 1700000090000
     (snd (build call0 ok_bundler 1700000000123 (Some deps_a) world_first))
     = (Resolved, snd (build call0 ok_bundler 1700000000123 (Some deps_a) world_first))"
proof -
  let ?w = "snd (build call0 ok_bundler 1700000000123 (Some deps_a) world_first)"
  have b: "fst (build call0 ok_bundler 1700000000123 (Some (JObj [(''a'', JStr ''^1'')]))
                  world_first) = Resolved"
    using ok_bundler_call0 [of 1700000000123 "[(''a'', ''^1'')]" world_first]
    by (simp add: dependency_object_def)
  have d: "read_deps call0
             (snd (build call0 ok_bundler 1700000000123 (Some (JObj [(''a'', JStr ''^1'')]))
                     world_first))
           = Inr (Some (JObj [(''a'', JStr ''^1'')]))"
    using ok_bundler_call0 [of 1700000000123 "[(''a'', ''^1'')]" world_first]
    by (simp add: dependency_object_def read_deps_def readFile_def call0_paths world_first_def
        package_json_def deps_a_def)
  from snapshot_round_trip [OF b refl d, of failing_bundler 1700000090000] b
  show ?thesis
    by (simp add: deps_a_def dependency_object_def)
qed

subsection \<open>Back-dating the export manifest\<close>

text \<open>
  Claim C7. Whenever \<open>build\<close> resolves, the modification time of the export manifest is
  the clock reading in seconds minus 10, which is earlier than the clock reading, and
  the snapshot file holds the serialized dependencies.
\<close>

theorem build_backdates_manifest:
  assumes "fst (build c webpack now deps w) = Resolved"
  shows "map_option mtime (files (fs (snd (build c webpack now deps w))) (manifestPath c))
           = Some (rat_of_nat now / 1000 - 10) \<and>
         rat_of_nat now / 1000 - 10 < rat_of_nat now / 1000 \<and>
         deps \<noteq> None \<and>
         map_option content (files (fs (snd (build c webpack now deps w))) (dllCachePath c))
           = map_option JSON_stringify deps"
proof -
  from build_resolved_files [OF assms] obtain d where "deps = Some d"
    and "map_option mtime (files (fs (snd (build c webpack now deps w))) (manifestPath c))
             = Some (rat_of_nat now / 1000 - 10)"
    and "files (fs (snd (build c webpack now deps w))) (dllCachePath c)
             = Some \<lparr>content = JSON_stringify d, mtime = rat_of_nat now / 1000\<rparr>"
    by blast
  then show ?thesis by simp
qed

theorem build_backdates_manifest_witness:
  "fst (build call0 ok_bundler 1700000000123 (Some deps_a) world_first) = Resolved \<and>
   map_option mtime
     (files (fs (snd (build call0 ok_bundler 1700000000123 (Some deps_a) world_first)))
        (''/app/.dll-cache'', ''vendor-manifest.json''))
     = Some (1699999990123 / 1000) \<and>
   map_option content
     (files (fs (snd (build call0 ok_bundler 1700000000123 (Some deps_a) world_first)))
        (''/app/.dll-cache'', ''dll.json''))
     = Some (JsonText deps_a)"
proof -
  have b: "fst (build call0 ok_bundler 1700000000123 (Some deps_a) world_first) = Resolved"
    by (simp add: deps_a_def ok_bundler_call0)
  from build_backdates_manifest [OF b] b show ?thesis
    by (simp add: call0_paths JSON_stringify_def)
qed

subsection \<open>A descriptor without dependencies\<close>

lemma read_cache_fields:
  "fs (snd (read_cache c w)) = fs w" "invocations (snd (read_cache c w)) = invocations w"
  by (simp_all add: read_cache_def Let_def print_fields split: completion.splits)

text \<open>
  Claim C10. When \<^verbatim>\<open>package.json\<close> parses to an object without \<^verbatim>\<open>dependencies\<close>, the
  dependencies are \<^verbatim>\<open>undefined\<close>; no cache, whatever it holds, passes the check against
  them; \<open>build\<close> throws the \<^verbatim>\<open>TypeError\<close> of \<^verbatim>\<open>Object.keys\<close>, so the promise of \<open>make\<close>
  is rejected, the bundler is not invoked and no file is written.
\<close>

theorem make_without_dependencies:
  assumes "files (fs w) (pkgJsonPath c) = Some f"
    and "content f = JsonText (JObj kvs)"
    and "map_of kvs ''dependencies'' = None"
  shows "read_deps c w = Inr None \<and>
         \<not> cache_valid cache None \<and>
         fst (make c webpack now w) = Rejected TypeError \<and>
         invocations (snd (make c webpack now w)) = invocations w \<and>
         fs (snd (make c webpack now w)) = fs w"
proof -
  have d: "read_deps c w = Inr None"
    using read_deps_object [OF assms(1,2)] assms(3) by simp
  have "make c webpack now w = (Rejected TypeError, snd (read_cache c w))"
    using make_decides [OF d, of webpack now] by (simp add: cache_valid_undefined build_undefined)
  with d show ?thesis by (simp add: cache_valid_undefined read_cache_fields)
qed

theorem make_without_dependencies_witness:
  "fst (read_cache call0 world_no_dependencies) = Some (JObj []) \<and>
   fst (make call0 ok_bundler 1700000000123 world_no_dependencies) = Rejected TypeError \<and>
   invocations (snd (make call0 ok_bundler 1700000000123 world_no_dependencies)) = []"
proof -
  have 1: "files (fs world_no_dependencies) (pkgJsonPath call0)
             = Some \<lparr>content = JsonText (JObj [(''name'', JStr ''app'')]), mtime = 1600000000\<rparr>"
    by (simp add: world_no_dependencies_def call0_paths)
  have 2: "content \<lparr>content = JsonText (JObj [(''name'', JStr ''app'')]), mtime = 1600000000\<rparr>
             = JsonText (JObj [(''name'', JStr ''app'')])"
    by simp
  have 3: "map_of [(''name'', JStr ''app'')] ''dependencies'' = None"
    by simp
  have 4: "fst (read_cache call0 world_no_dependencies) = Some (JObj [])"
    by (simp add: read_cache_def readFile_def world_no_dependencies_def call0_paths)
  from make_without_dependencies [OF 1 2 3, of None ok_bundler 1700000000123] 4
  show ?thesis by (simp add: world_no_dependencies_def)
qed

subsection \<open>Logging\<close>

lemma first_run_console:
  assumes o: "plugin_options c = (DefaultOptions ''/app'')\<lparr>opt_log := l\<rparr>"
    and l: "l \<noteq> LogVerbose"
  shows "console (snd (make c ok_bundler now world_first))
           = [(Log, Text start_message), (Log, Text success_message)]"
proof -
  note p = default_paths [OF o]
  have d: "read_deps c world_first = Inr (Some deps_a)"
    by (simp add: read_deps_def readFile_def world_first_def p package_json_def)
  have rc: "read_cache c world_first = (None, print Log (Text start_message) world_first)"
    by (rule read_cache_missing) (simp add: world_first_def p)
  have "\<not> cache_valid None (Some deps_a)"
    by (simp add: cache_valid_def)
  then have "make c ok_bundler now world_first
          = build c ok_bundler now (Some deps_a) (print Log (Text start_message) world_first)"
    using make_decides [OF d, of ok_bundler now] by (simp add: rc)
  then show ?thesis
    by (simp add: deps_a_def ok_bundler_default [OF o l] print_fields world_first_def)
qed

text \<open>
  Claim C9 says that with \<^verbatim>\<open>log: false\<close> or \<^verbatim>\<open>log: 'none'\<close> the start message and the
  success message are not printed. The test \<^verbatim>\<open>log !== false || log !== 'none'\<close> holds for
  every value of \<^verbatim>\<open>log\<close>: on a first run with either setting both messages are printed.
\<close>

theorem log_disabled_still_prints:
  "opt_log (plugin_options call_quiet) = LogBool False \<and>
   console (snd (make call_quiet ok_bundler 1700000000123 world_first))
     = [(Log, Text start_message), (Log, Text success_message)] \<and>
   opt_log (plugin_options call_none) = LogNone \<and>
   console (snd (make call_none ok_bundler 1700000000123 world_first))
     = [(Log, Text start_message), (Log, Text success_message)]"
  by (simp add: first_run_console [OF options_call_quiet] first_run_console [OF options_call_none]
      default_paths(6) [OF options_call_quiet] default_paths(6) [OF options_call_none])

subsection \<open>The watch cycle\<close>

lemma watch_rebuild_result:
  "watch_rebuild c webpack now timestamp pkgTimestamp w =
     (case fst (make c webpack now (print Log (Text changed_message) w)) of
        Resolved \<Rightarrow> (None, timestamp, snd (make c webpack now (print Log (Text changed_message) w)))
      | Rejected e \<Rightarrow>
          (Some e, pkgTimestamp, snd (make c webpack now (print Log (Text changed_message) w))))"
  by (simp add: watch_rebuild_def Let_def case_prod_unfold log_test_always)

lemma make_changed_dependencies:
  assumes "fs w = fs world_cached"
  shows "make call0 webpack now w = build call0 webpack now (Some deps_ab) w"
proof -
  have d: "read_deps call0 w = Inr (Some deps_ab)"
    by (simp add: read_deps_def readFile_def assms world_cached_def call0_paths package_json_def)
  have rc: "read_cache call0 w = (Some deps_a, w)"
    by (simp add: read_cache_def readFile_def assms world_cached_def call0_paths)
  have "\<not> baseIsEqual deps_a deps_ab"
    unfolding deps_a_def deps_ab_def by (simp add: dependency_object_equal)
  then have "\<not> cache_valid (Some deps_a) (Some deps_ab)"
    by (simp add: cache_valid_def)
  then show ?thesis
    using make_decides [OF d, of webpack now] by (simp add: rc)
qed

lemma make_changed_failing:
  assumes "fs w = fs world_cached"
  shows "fst (make call0 failing_bundler now w)
           = Rejected (CompileErrors [''Module not found: b''])"
proof -
  let ?st = "\<lparr>errors = [''Module not found: b''], warnings = [], stats_text = ''failed''\<rparr>"
  have e: "build_entry call0 (Some deps_ab) = Inr (''vendor'', [''a'', ''b''])"
    using call0_entry [of "[(''a'', ''^1''), (''b'', ''^2'')]"] by (simp add: deps_ab_def)
  have b: "failing_bundler (build_config call0 (''vendor'', [''a'', ''b''])) (fs w)
             = (Stats ?st, fs w)"
    by (rule failing_bundler_call0)
  have n: "errors ?st \<noteq> []" by simp
  have "fst (build call0 failing_bundler now (Some deps_ab) w)
          = Rejected (CompileErrors (errors ?st))"
    using e b n by (rule build_compile_errors(1))
  then show ?thesis by (simp add: make_changed_dependencies [OF assms])
qed

lemma make_changed_ok:
  assumes "fs w = fs world_cached"
  shows "fst (make call0 ok_bundler now w) = Resolved"
  by (simp add: make_changed_dependencies [OF assms] deps_ab_def ok_bundler_call0)

text \<open>
  What holds of every cycle: one that ends with \<^verbatim>\<open>callback(null)\<close> has stored the
  observed timestamp; one that ends with \<^verbatim>\<open>callback(e)\<close> has left the stored timestamp
  as it was, \<open>e\<close> is what the promise of \<open>make\<close> was rejected with, and a next cycle
  that observes the same timestamp calls \<open>make\<close> again.
\<close>

lemma watch_run_stores_timestamp:
  "(fst (watch_run c webpack now timestamp pkgTimestamp w) = None \<longrightarrow>
      fst (snd (watch_run c webpack now timestamp pkgTimestamp w)) = timestamp) \<and>
   (fst (watch_run c webpack now timestamp pkgTimestamp w) = Some e \<longrightarrow>
      fst (snd (watch_run c webpack now timestamp pkgTimestamp w)) = pkgTimestamp \<and>
      fst (make c webpack now (print Log (Text changed_message) w)) = Rejected e \<and>
      watch_run c webpack2 now2 timestamp
          (fst (snd (watch_run c webpack now timestamp pkgTimestamp w))) w2
        = watch_rebuild c webpack2 now2 timestamp pkgTimestamp w2) \<and>
   (\<not> falsy_timestamp timestamp \<and> timestamp \<noteq> pkgTimestamp \<longrightarrow>
      (fst (make c webpack now (print Log (Text changed_message) w)) = Resolved \<longrightarrow>
         fst (watch_run c webpack now timestamp pkgTimestamp w) = None \<and>
         fst (snd (watch_run c webpack now timestamp pkgTimestamp w)) = timestamp) \<and>
      (fst (make c webpack now (print Log (Text changed_message) w)) = Rejected e \<longrightarrow>
         fst (watch_run c webpack now timestamp pkgTimestamp w) = Some e \<and>
         fst (snd (watch_run c webpack now timestamp pkgTimestamp w)) = pkgTimestamp))"
proof (cases "falsy_timestamp timestamp \<or> timestamp = pkgTimestamp")
  case True
  then show ?thesis by (auto simp: watch_run_def)
next
  case False
  then have r: "watch_run c webpack now timestamp pkgTimestamp w
                  = watch_rebuild c webpack now timestamp pkgTimestamp w"
    and r2: "watch_run c webpack2 now2 timestamp pkgTimestamp w2
                  = watch_rebuild c webpack2 now2 timestamp pkgTimestamp w2"
    by (simp_all add: watch_run_def)
  show ?thesis
  proof (cases "fst (make c webpack now (print Log (Text changed_message) w))")
    case Resolved
    then show ?thesis using False by (simp add: r watch_rebuild_result)
  next
    case (Rejected x)
    then show ?thesis using False r2 by (simp add: r watch_rebuild_result)
  qed
qed

lemma failed_cycle_result:
  "failed_cycle =
     (Some (CompileErrors [''Module not found: b'']), Some 0,
      snd (build call0 failing_bundler 1700000000123 (Some deps_ab)
             (print Log (Text changed_message) world_cached)))"
proof -
  have t: "\<not> (falsy_timestamp (Some 1700000000000) \<or> Some 1700000000000 = Some (0::nat))"
    by (simp add: falsy_timestamp_def)
  have f: "fs (print Log (Text changed_message) world_cached) = fs world_cached"
    by (simp add: print_fields)
  show ?thesis
    unfolding failed_cycle_def watch_run_def
    using t make_changed_failing [OF f, of 1700000000123]
    by (simp add: watch_rebuild_result make_changed_dependencies [OF f])
qed

lemma failed_cycle_world:
  "files (fs (snd (snd failed_cycle))) (pkgJsonPath call0) = Some (package_json deps_ab)"
  "files (fs (snd (snd failed_cycle))) (dllCachePath call0)
     = Some \<lparr>content = JsonText deps_ab, mtime = rat_of_nat 1700000000123 / 1000\<rparr>"
  "invocations (snd (snd failed_cycle)) = [build_config call0 (''vendor'', [''a'', ''b''])]"
proof -
  let ?w = "print Log (Text changed_message) world_cached"
  let ?st = "\<lparr>errors = [''Module not found: b''], warnings = [], stats_text = ''failed''\<rparr>"
  let ?f = "\<lparr>content = JsonText (JObj [(''name'', JStr ''vendor'')]), mtime = 1650000000\<rparr>"
  have e: "build_entry call0 (Some deps_ab) = Inr (''vendor'', [''a'', ''b''])"
    using call0_entry [of "[(''a'', ''^1''), (''b'', ''^2'')]"] by (simp add: deps_ab_def)
  have b: "failing_bundler (build_config call0 (''vendor'', [''a'', ''b''])) (fs ?w)
             = (Stats ?st, fs ?w)"
    by (rule failing_bundler_call0)
  have m: "files (fs ?w) (manifestPath call0) = Some ?f"
    by (simp add: print_fields world_cached_def call0_paths)
  have d: "dllDirectory call0 \<in> dirs (fs ?w)"
    by (simp add: print_fields world_cached_def call0_paths)
  have fsw: "fs (snd (build call0 failing_bundler 1700000000123 (Some deps_ab) ?w)) =
     (fs ?w)\<lparr>files := (files (fs ?w))
           (manifestPath call0 \<mapsto> ?f\<lparr>mtime := rat_of_nat 1700000000123 / 1000 - 10\<rparr>,
            dllCachePath call0 \<mapsto> \<lparr>content = JSON_stringify deps_ab,
                                mtime = rat_of_nat 1700000000123 / 1000\<rparr>)\<rparr>"
    using e b m d by (rule build_stats_fs)
  show "files (fs (snd (snd failed_cycle))) (pkgJsonPath call0) = Some (package_json deps_ab)"
    unfolding failed_cycle_result snd_conv fsw
    by (simp add: print_fields world_cached_def call0_paths)
  show "files (fs (snd (snd failed_cycle))) (dllCachePath call0)
     = Some \<lparr>content = JsonText deps_ab, mtime = rat_of_nat 1700000000123 / 1000\<rparr>"
    unfolding failed_cycle_result snd_conv fsw
    by (simp add: JSON_stringify_def call0_paths)
  show "invocations (snd (snd failed_cycle)) = [build_config call0 (''vendor'', [''a'', ''b''])]"
    unfolding failed_cycle_result
    using build_invocations [OF e, of failing_bundler 1700000000123 ?w]
    by (simp add: print_fields world_cached_def)
qed

lemma make_after_failed_cycle:
  assumes "fs w = fs (snd (snd failed_cycle))"
  shows "make call0 webpack now w = (Resolved, w)"
proof -
  have d: "read_deps call0 w = Inr (Some deps_ab)"
    using read_deps_object [of w call0 "package_json deps_ab"
        "[(''name'', JStr ''app''), (''dependencies'', deps_ab)]"]
    by (simp add: assms failed_cycle_world package_json_def)
  have rc: "read_cache call0 w = (Some deps_ab, w)"
    by (rule read_cache_parsed [where f = "\<lparr>content = JsonText deps_ab,
          mtime = rat_of_nat 1700000000123 / 1000\<rparr>"])
      (simp_all add: assms failed_cycle_world)
  have "cache_valid (Some deps_ab) (Some deps_ab)"
    unfolding deps_ab_def dependency_object_def by (rule cache_valid_same)
  then show ?thesis
    using make_decides [OF d, of webpack now] by (simp add: rc)
qed

text \<open>
  Claim C8 says that a failed rebuild keeps the stored timestamp, so that the next cycle
  observes the same changed timestamp and retries the rebuild. The timestamp is kept, but
  the rebuild is not retried after a compile error: the callback of \<open>build\<close> has written
  the new dependencies to \<^verbatim>\<open>dll.json\<close> after \<^verbatim>\<open>reject(info.errors)\<close>, so in the next cycle
  the check of \<open>make\<close> passes, the bundler is not invoked again, and the cycle ends with
  \<^verbatim>\<open>callback(null)\<close> and the timestamp stored.
\<close>

theorem watch_retry_skips_rebuild:
  "fst failed_cycle = Some (CompileErrors [''Module not found: b'']) \<and>
   fst (snd failed_cycle) = Some 0 \<and>
   invocations (snd (snd failed_cycle)) = [build_config call0 (''vendor'', [''a'', ''b''])] \<and>
   map_option content (files (fs (snd (snd failed_cycle))) (dllCachePath call0))
     = Some (JsonText deps_ab) \<and>
   fst retry_cycle = None \<and>
   fst (snd retry_cycle) = Some 1700000000000 \<and>
   invocations (snd (snd retry_cycle)) = invocations (snd (snd failed_cycle))"
proof -
  let ?w = "print Log (Text changed_message) (snd (snd failed_cycle))"
  have t: "\<not> (falsy_timestamp (Some 1700000000000) \<or> Some 1700000000000 = Some (0::nat))"
    by (simp add: falsy_timestamp_def)
  have "fs ?w = fs (snd (snd failed_cycle))"
    by (simp add: print_fields)
  then have m: "make call0 failing_bundler 1700000060123 ?w = (Resolved, ?w)"
    by (rule make_after_failed_cycle)
  have p: "fst (snd failed_cycle) = Some 0"
    by (simp add: failed_cycle_result)
  have r: "retry_cycle = (None, Some 1700000000000, ?w)"
    unfolding retry_cycle_def watch_run_def p
    using t by (simp add: watch_rebuild_result m)
  show ?thesis
    by (simp add: r failed_cycle_world print_fields) (simp add: failed_cycle_result)
qed

end
